theory Spec2Isabelle
  imports Complex_Main "HOL-Library.Multiset"
begin

section \<open>IEEE 754 arithmetic, as Go's float32 and float64 perform it\<close>

text \<open>
  statsgod stores every metric value as a Go \<^verbatim>\<open>float32\<close> and computes the percentile
  threshold in \<^verbatim>\<open>float64\<close>.  Both are IEEE 754 binary formats with round-to-nearest,
  ties-to-even.  A floating-point datum is modelled by the rational number it denotes, or
  one of the special data: negative zero, the two infinities, not-a-number.  \<open>Num 0\<close> is
  positive zero.  Every operation computes the exact rational result and rounds it once
  into the format, which is what IEEE 754 prescribes for \<open>+\<close>, \<open>-\<close>, \<open>*\<close>, \<open>/\<close> and for
  conversions.
\<close>

datatype ieee = Num rat | NegZero | PosInf | NegInf | NaN

type_synonym float32 = ieee
type_synonym float64 = ieee

record format =
  precision :: nat
  emin :: int
  emax :: int

definition binary32 :: format where
  "binary32 = \<lparr>precision = 24, emin = - 126, emax = 127\<rparr>"

definition binary64 :: format where
  "binary64 = \<lparr>precision = 53, emin = - 1022, emax = 1023\<rparr>"

definition pow2 :: "int \<Rightarrow> rat" where
  "pow2 k = (if 0 \<le> k then 2 ^ nat k else 1 / 2 ^ nat (- k))"

text \<open>The number of binary digits of a positive integer.\<close>

function bitlen :: "int \<Rightarrow> int" where
  "bitlen n = (if n \<le> 0 then 0 else 1 + bitlen (n div 2))"
  by pat_completeness auto
termination
  by (relation "measure nat") auto

declare bitlen.simps [simp del]

text \<open>For \<open>q > 0\<close>, the exponent \<open>e\<close> with \<open>2 ^ e \<le> q < 2 ^ (e + 1)\<close>.\<close>

definition ilog2 :: "rat \<Rightarrow> int" where
  "ilog2 q = (if 1 \<le> q then bitlen \<lfloor>q\<rfloor> - 1 else - bitlen (\<lceil>1 / q\<rceil> - 1))"

definition round_half_even :: "rat \<Rightarrow> int" where
  "round_half_even r =
     (let f = \<lfloor>r\<rfloor>; d = r - of_int f
      in if d < 1 / 2 then f else if 1 / 2 < d then f + 1 else if even f then f else f + 1)"

text \<open>
  Rounding a non-zero rational into a format: the unit in the last place comes from the
  exponent of \<open>q\<close> (not below \<open>emin\<close>, which gives the subnormal numbers), \<open>q\<close> is rounded to
  a multiple of it, a result that underflows to zero keeps the sign of \<open>q\<close>, and a
  result beyond the largest finite number (its exponent exceeds \<open>emax\<close>) is an infinity.
\<close>

definition round_to :: "format \<Rightarrow> rat \<Rightarrow> ieee" where
  "round_to fmt q =
     (let e = max (ilog2 \<bar>q\<bar>) (emin fmt);
          ulp = pow2 (e - int (precision fmt) + 1);
          r = of_int (round_half_even (q / ulp)) * ulp
      in if r = 0 then (if q < 0 then NegZero else Num 0)
         else if emax fmt < ilog2 \<bar>r\<bar> then (if q < 0 then NegInf else PosInf)
         else Num r)"

fun fval :: "ieee \<Rightarrow> rat" where
  "fval (Num q) = q"
| "fval _ = 0"

fun is_inf :: "ieee \<Rightarrow> bool" where
  "is_inf PosInf = True"
| "is_inf NegInf = True"
| "is_inf _ = False"

fun is_zero :: "ieee \<Rightarrow> bool" where
  "is_zero (Num q) = (q = 0)"
| "is_zero NegZero = True"
| "is_zero _ = False"

fun sign_bit :: "ieee \<Rightarrow> bool" where
  "sign_bit (Num q) = (q < 0)"
| "sign_bit NegZero = True"
| "sign_bit NegInf = True"
| "sign_bit _ = False"

definition signed_zero :: "bool \<Rightarrow> ieee" where
  "signed_zero neg = (if neg then NegZero else Num 0)"

definition signed_inf :: "bool \<Rightarrow> ieee" where
  "signed_inf neg = (if neg then NegInf else PosInf)"

fun fneg :: "ieee \<Rightarrow> ieee" where
  "fneg (Num q) = (if q = 0 then NegZero else Num (- q))"
| "fneg NegZero = Num 0"
| "fneg PosInf = NegInf"
| "fneg NegInf = PosInf"
| "fneg NaN = NaN"

definition fadd :: "format \<Rightarrow> ieee \<Rightarrow> ieee \<Rightarrow> ieee" where
  "fadd fmt x y =
     (if x = NaN \<or> y = NaN then NaN
      else if is_inf x then (if is_inf y \<and> x \<noteq> y then NaN else x)
      else if is_inf y then y
      else let s = fval x + fval y
           in if s = 0 then (if x = NegZero \<and> y = NegZero then NegZero else Num 0)
              else round_to fmt s)"

definition fsub :: "format \<Rightarrow> ieee \<Rightarrow> ieee \<Rightarrow> ieee" where
  "fsub fmt x y = fadd fmt x (fneg y)"

definition fmul :: "format \<Rightarrow> ieee \<Rightarrow> ieee \<Rightarrow> ieee" where
  "fmul fmt x y =
     (if x = NaN \<or> y = NaN then NaN
      else if is_inf x then (if is_zero y then NaN else signed_inf (sign_bit x \<noteq> sign_bit y))
      else if is_inf y then (if is_zero x then NaN else signed_inf (sign_bit x \<noteq> sign_bit y))
      else let p = fval x * fval y
           in if p = 0 then signed_zero (sign_bit x \<noteq> sign_bit y) else round_to fmt p)"

definition fdiv :: "format \<Rightarrow> ieee \<Rightarrow> ieee \<Rightarrow> ieee" where
  "fdiv fmt x y =
     (if x = NaN \<or> y = NaN then NaN
      else if is_inf x then (if is_inf y then NaN else signed_inf (sign_bit x \<noteq> sign_bit y))
      else if is_inf y then signed_zero (sign_bit x \<noteq> sign_bit y)
      else if is_zero y then (if is_zero x then NaN else signed_inf (sign_bit x \<noteq> sign_bit y))
      else if is_zero x then signed_zero (sign_bit x \<noteq> sign_bit y)
      else round_to fmt (fval x / fval y))"

text \<open>
  The comparison \<open><\<close>: false whenever an operand is not-a-number; the two zeros are
  equal; the infinities lie outside all numbers.
\<close>

fun frank :: "ieee \<Rightarrow> int" where
  "frank PosInf = 1"
| "frank NegInf = - 1"
| "frank _ = 0"

definition fless :: "ieee \<Rightarrow> ieee \<Rightarrow> bool" where
  "fless x y = (x \<noteq> NaN \<and> y \<noteq> NaN \<and>
     (frank x < frank y \<or> (frank x = frank y \<and> fval x < fval y)))"

text \<open>Conversions: integer to float, float to float, \<^verbatim>\<open>math.Floor\<close>.\<close>

definition fof_int :: "format \<Rightarrow> int \<Rightarrow> ieee" where
  "fof_int fmt n = (if n = 0 then Num 0 else round_to fmt (of_int n))"

fun fconv :: "format \<Rightarrow> ieee \<Rightarrow> ieee" where
  "fconv fmt (Num q) = (if q = 0 then Num 0 else round_to fmt q)"
| "fconv fmt x = x"

fun ffloor :: "ieee \<Rightarrow> ieee" where
  "ffloor (Num q) = Num (of_int \<lfloor>q\<rfloor>)"
| "ffloor x = x"

text \<open>
  Go's conversion \<^verbatim>\<open>int(x)\<close> of a float64 discards the fraction.  When the value does not
  fit the integer type, the language leaves the result to the implementation: that is
  \<open>None\<close> here.  Go's \<^verbatim>\<open>int\<close> is taken to be 64 bits wide.
\<close>

fun f64_to_int :: "float64 \<Rightarrow> int option" where
  "f64_to_int (Num q) =
     (let t = (if 0 \<le> q then \<lfloor>q\<rfloor> else \<lceil>q\<rceil>)
      in if - (2 ^ 63) \<le> t \<and> t < 2 ^ 63 then Some t else None)"
| "f64_to_int NegZero = Some 0"
| "f64_to_int _ = None"

abbreviation f32_add :: "float32 \<Rightarrow> float32 \<Rightarrow> float32" where
  "f32_add \<equiv> fadd binary32"

abbreviation f32_div :: "float32 \<Rightarrow> float32 \<Rightarrow> float32" where
  "f32_div \<equiv> fdiv binary32"

abbreviation f32_of_int :: "int \<Rightarrow> float32" where
  "f32_of_int \<equiv> fof_int binary32"

abbreviation f32_of_f64 :: "float64 \<Rightarrow> float32" where
  "f32_of_f64 \<equiv> fconv binary32"

abbreviation f64_of_int :: "int \<Rightarrow> float64" where
  "f64_of_int \<equiv> fof_int binary64"


section \<open>The metric store\<close>

text \<open>
  \<^verbatim>\<open>type Metric struct\<close>: the name, the type (one of the strings \<open>gauge\<close>, \<open>counter\<close>,
  \<open>timer\<close>), the number of updates, the last value, all values, and two time stamps.
  \<open>totalHits\<close> is a Go \<^verbatim>\<open>int\<close>; it counts the elements appended to \<open>allValues\<close>, whose
  length is itself a Go \<^verbatim>\<open>int\<close>, so the counter cannot wrap around before the slice
  exhausts memory, and it is an unbounded integer here.
\<close>

record Metric =
  key :: string
  metricType :: string
  totalHits :: int
  lastValue :: float32
  allValues :: "float32 list"
  flushTime :: int
  lastFlushed :: int

text \<open>Go's zero value of the struct: what a map lookup yields for an absent key.\<close>

definition zero_Metric :: Metric where
  "zero_Metric = \<lparr>key = [], metricType = [], totalHits = 0, lastValue = Num 0,
     allValues = [], flushTime = 0, lastFlushed = 0\<rparr>"

text \<open>
  \<^verbatim>\<open>type MetricStore struct\<close>: the map from names to metrics.  The mutex \<open>mu\<close> is held by
  \<open>Get\<close> and \<open>Set\<close> from entry to exit, so each of them is one atomic step on the map.
\<close>

type_synonym MetricStore = "string \<rightharpoonup> Metric"

definition NewMetricStore :: MetricStore where
  "NewMetricStore = Map.empty"

definition Get :: "MetricStore \<Rightarrow> string \<Rightarrow> Metric" where
  "Get s k = (case s k of None \<Rightarrow> zero_Metric | Some m \<Rightarrow> m)"

text \<open>
  \<^verbatim>\<open>func (s *MetricStore) Set(key string, metricType string, val float32) bool\<close>.
  The result is the new map and the method's return value, which is always \<open>false\<close>.
\<close>

definition MetricStore_Set :: "MetricStore \<Rightarrow> string \<Rightarrow> string \<Rightarrow> float32 \<Rightarrow> MetricStore \<times> bool" where
  "MetricStore_Set s k mtype val =
     (let m = (case s k of
                 None \<Rightarrow> zero_Metric\<lparr>key := k, totalHits := 1, lastValue := val, metricType := mtype\<rparr>
               | Some m0 \<Rightarrow>
                   (let m1 = m0\<lparr>totalHits := totalHits m0 + 1\<rparr>
                    in if mtype = ''gauge'' then m1\<lparr>lastValue := val\<rparr>
                       else if mtype = ''counter'' then m1\<lparr>lastValue := f32_add (lastValue m1) val\<rparr>
                       else if mtype = ''timer'' then m1\<lparr>lastValue := val\<rparr>
                       else m1))
      in (s(k \<mapsto> m\<lparr>allValues := allValues m @ [val]\<rparr>), False))"

section \<open>Reading client messages\<close>

text \<open>
  \<^verbatim>\<open>func shortTypeToLong(short string) (string, error)\<close>: the long name and the error,
  \<open>None\<close> for \<^verbatim>\<open>nil\<close>.
\<close>

definition shortTypeToLong :: "string \<Rightarrow> string \<times> string option" where
  "shortTypeToLong short =
     (if ''c'' = short then (''counter'', None)
      else if ''g'' = short then (''gauge'', None)
      else if ''ms'' = short then (''timer'', None)
      else (''unknown'', Some ''unknown metric type''))"

text \<open>
  \<^verbatim>\<open>func checkError(err error, info string, panicOnError bool)\<close>: the message of the panic
  it raises, if it raises one.  With \<open>panicOnError = false\<close> it has no effect at all: the
  message is built and dropped.
\<close>

definition checkError :: "string option \<Rightarrow> string \<Rightarrow> bool \<Rightarrow> string option" where
  "checkError err info panicOnError =
     (case err of
        None \<Rightarrow> None
      | Some e \<Rightarrow> (let errString = ''ERROR: '' @ info @ '' '' @ e
                   in if panicOnError then Some errString else None))"

text \<open>
  The library functions \<^verbatim>\<open>strings.TrimSpace\<close> and \<^verbatim>\<open>strings.Trim\<close>.  Strings are byte
  sequences; the white space of \<open>TrimSpace\<close> is the ASCII white space (the two white-space
  characters of Latin-1 beyond ASCII are not modelled).
\<close>

definition ascii_space :: "char \<Rightarrow> bool" where
  "ascii_space c = (c \<in> set [CHR 0x09, CHR 0x0A, CHR 0x0B, CHR 0x0C, CHR 0x0D, CHR 0x20])"

definition TrimSpace :: "string \<Rightarrow> string" where
  "TrimSpace s = rev (dropWhile ascii_space (rev (dropWhile ascii_space s)))"

definition Trim :: "string \<Rightarrow> string \<Rightarrow> string" where
  "Trim s cutset =
     rev (dropWhile (\<lambda>c. c \<in> set cutset) (rev (dropWhile (\<lambda>c. c \<in> set cutset) s)))"

text \<open>
  The regular expression \<^verbatim>\<open>(.*)\:(.*)\|(.*)\<close> and \<^verbatim>\<open>FindAllStringSubmatch(string(buf), 1)\<close>:
  the leftmost match and its three groups.  A dot matches every byte but the newline, so a
  match lies within one line of the buffer, and it starts where that line starts, the
  first group taking what precedes.  The leftmost match is therefore in the first line
  that has a colon with a pipe somewhere after it.  The groups are greedy: the first ends
  at the last colon that still has a pipe after it, the second at the last pipe, the third
  is the rest of the line.
\<close>

definition split_last :: "char \<Rightarrow> string \<Rightarrow> (string \<times> string) option" where
  "split_last c s =
     (case dropWhile (\<lambda>x. x \<noteq> c) (rev s) of
        [] \<Rightarrow> None
      | _ # pre \<Rightarrow> Some (rev pre, rev (takeWhile (\<lambda>x. x \<noteq> c) (rev s))))"

definition match_line :: "string \<Rightarrow> (string \<times> string \<times> string) option" where
  "match_line l =
     (case split_last (CHR ''|'') l of
        None \<Rightarrow> None
      | Some (front, g3) \<Rightarrow>
          (case split_last (CHR '':'') front of
             None \<Rightarrow> None
           | Some (g1, g2) \<Rightarrow> Some (g1, g2, g3)))"

fun lines_of :: "string \<Rightarrow> string list" where
  "lines_of [] = [[]]"
| "lines_of (c # cs) =
     (if c = CHR 0x0A then [] # lines_of cs
      else (case lines_of cs of [] \<Rightarrow> [[c]] | l # ls \<Rightarrow> (c # l) # ls))"

fun first_match :: "string list \<Rightarrow> (string \<times> string \<times> string) option" where
  "first_match [] = None"
| "first_match (l # ls) = (case match_line l of None \<Rightarrow> first_match ls | Some g \<Rightarrow> Some g)"

definition FindSubmatch :: "string \<Rightarrow> (string \<times> string \<times> string) option" where
  "FindSubmatch buf = first_match (lines_of buf)"

text \<open>
  One \<^verbatim>\<open>conn.Read(buf)\<close> into the fresh 512-byte buffer: the bytes the transport delivers,
  followed by the zero bytes the buffer was made of.
\<close>

definition read_buf :: "string \<Rightarrow> string" where
  "read_buf chunk = take 512 (chunk @ replicate 512 (CHR 0x00))"

text \<open>
  \<^verbatim>\<open>func handleRequest(conn net.Conn, store *MetricStore)\<close>, the session of one client.
  The connection is the list of the chunks its reads deliver; the read after the last
  chunk fails (the peer has closed, or the transport has failed).  The library function
  \<^verbatim>\<open>strconv.ParseFloat(val, 32)\<close> is the parameter \<open>pf\<close>: it yields a value and an error, and
  on an error the value is still there (zero for a syntax error, an infinity for a range
  error).  The session ends by one of the two \<^verbatim>\<open>return\<close> statements, or by a panic of
  \<open>checkError\<close>.  The result is the store, the warnings logged (the trace output is not
  modelled), how the session ended, and the chunks that were never read.
\<close>

datatype session_end = ReadFailed | MessageRejected | Panicked string

fun handleRequest ::
  "(string \<Rightarrow> float64 \<times> string option) \<Rightarrow> string list \<Rightarrow> MetricStore \<Rightarrow> string list
     \<Rightarrow> MetricStore \<times> string list \<times> session_end \<times> string list" where
  "handleRequest pf [] store warnings =
     (case checkError (Some ''EOF'') ''Reading Connection'' False of
        Some p \<Rightarrow> (store, warnings, Panicked p, [])
      | None \<Rightarrow> (store, warnings, ReadFailed, []))"
| "handleRequest pf (chunk # rest) store warnings =
     (let buf = read_buf chunk
      in case FindSubmatch buf of
           None \<Rightarrow>
             (store, warnings @ [''Error processing client message: '' @ buf],
              MessageRejected, rest)
         | Some (metric, val, g3) \<Rightarrow>
             (let tmpMetricType = Trim (TrimSpace g3) [CHR 0x00];
                  (mtype, err) = shortTypeToLong tmpMetricType
              in if err \<noteq> None then
                   handleRequest pf rest store
                     (warnings @ [''Problem handling metric of type: '' @ tmpMetricType])
                 else
                   (let (v, err) = pf val
                    in case checkError err ''Converting Value'' False of
                         Some p \<Rightarrow> (store, warnings, Panicked p, rest)
                       | None \<Rightarrow>
                           handleRequest pf rest
                             (fst (MetricStore_Set store metric mtype (f32_of_f64 v)))
                             warnings)))"

section \<open>The export of one metric\<close>

text \<open>
  The flags the export reads: \<^verbatim>\<open>*percentile\<close>, a Go \<^verbatim>\<open>int\<close>, and \<^verbatim>\<open>*flushTime\<close>, a
  \<^verbatim>\<open>time.Duration\<close>, which is a number of nanoseconds.
\<close>

record flags =
  flag_percentile :: int
  flag_flushTime :: int

text \<open>
  \<^verbatim>\<open>strconv.Itoa\<close> and the verb \<^verbatim>\<open>%d\<close>: the decimal digits of an integer, after a minus sign
  when it is negative.
\<close>

definition digit_char :: "int \<Rightarrow> char" where
  "digit_char d = ''0123456789'' ! nat d"

function digits_of :: "int \<Rightarrow> string" where
  "digits_of n = (if n < 10 then [digit_char n] else digits_of (n div 10) @ [digit_char (n mod 10)])"
  by pat_completeness auto
termination
  by (relation "measure nat") auto

declare digits_of.simps [simp del]

definition Itoa :: "int \<Rightarrow> string" where
  "Itoa n = (if n < 0 then CHR ''-'' # digits_of (- n) else digits_of n)"

text \<open>
  \<^verbatim>\<open>time.Duration.Seconds\<close>: the whole seconds plus the remaining nanoseconds over \<open>1e9\<close>, in
  float64.  Go's integer division truncates towards zero.
\<close>

definition quo :: "int \<Rightarrow> int \<Rightarrow> int" where
  "quo a b = sgn a * sgn b * (\<bar>a\<bar> div \<bar>b\<bar>)"

definition Seconds :: "int \<Rightarrow> float64" where
  "Seconds d =
     (let sec = quo d 1000000000; nsec = d - 1000000000 * sec
      in fadd binary64 (f64_of_int sec) (fdiv binary64 (f64_of_int nsec) (Num 1000000000)))"

text \<open>
  \<^verbatim>\<open>sort.Sort(ByFloat32(m.allValues))\<close>.  \<open>Less\<close> is the method of the source.  The library's
  \<^verbatim>\<open>sort.Sort\<close> orders the data ascending as \<open>Less\<close> determines, not necessarily stably;
  it is modelled by insertion with \<open>Less\<close> as the only comparison.
\<close>

definition Less :: "float32 list \<Rightarrow> nat \<Rightarrow> nat \<Rightarrow> bool" where
  "Less a i j = fless (a ! i) (a ! j)"

fun insert_less :: "float32 \<Rightarrow> float32 list \<Rightarrow> float32 list" where
  "insert_less x [] = [x]"
| "insert_less x (y # ys) = (if Less [y, x] 0 1 then y # insert_less x ys else x # y # ys)"

definition sort_Sort :: "float32 list \<Rightarrow> float32 list" where
  "sort_Sort xs = foldr insert_less xs []"

text \<open>
  An index expression \<^verbatim>\<open>a[i]\<close>: the element, or the run-time panic "index out of range"
  with the index and the length.
\<close>

datatype outcome = Returned | IndexOutOfRange int nat | ImplementationDependent

definition index :: "'a list \<Rightarrow> int \<Rightarrow> outcome + 'a" where
  "index a i = (if 0 \<le> i \<and> i < int (length a) then Inr (a ! nat i) else Inl (IndexOutOfRange i (length a)))"

text \<open>
  The loop \<^verbatim>\<open>for idx, value := range m.allValues\<close> with its two accumulators \<open>sum\<close> (here
  \<open>sum1\<close>) and \<open>cumulativeValues\<close>; the access \<^verbatim>\<open>cumulativeValues[idx-1]\<close> is checked like
  every index expression.
\<close>

fun cumulative_loop ::
  "float32 list \<Rightarrow> int \<Rightarrow> float32 \<Rightarrow> float32 list \<Rightarrow> outcome + float32 \<times> float32 list" where
  "cumulative_loop [] idx sum1 cumulativeValues = Inr (sum1, cumulativeValues)"
| "cumulative_loop (v # rest) idx sum1 cumulativeValues =
     (if idx \<noteq> 0 then
        (case index cumulativeValues (idx - 1) of
           Inl p \<Rightarrow> Inl p
         | Inr c \<Rightarrow>
             cumulative_loop rest (idx + 1) (f32_add sum1 v) (cumulativeValues @ [f32_add c v]))
      else cumulative_loop rest (idx + 1) (f32_add sum1 v) cumulativeValues)"

text \<open>
  \<^verbatim>\<open>int(math.Floor((((100 - float64(*percentile)) / 100) * float64(m.totalHits)) + 0.5))\<close>,
  every operation in float64.
\<close>

definition thresholdIndex :: "int \<Rightarrow> int \<Rightarrow> int option" where
  "thresholdIndex p hits =
     f64_to_int (ffloor (fadd binary64
       (fmul binary64 (fdiv binary64 (fsub binary64 (Num 100) (f64_of_int p)) (Num 100))
          (f64_of_int hits))
       (Num (1 / 2))))"

text \<open>
  \<^verbatim>\<open>func sendToGraphite(m Metric)\<close>.  A data point is the argument triple of one call of
  \<^verbatim>\<open>sendSingleMetricToGraphite(key, v, t)\<close>, which dials the sink and writes the line
  \<open>key v t\<close>, or logs an error when the sink cannot be reached.  The function yields the
  points in the order of the calls, and how it ended; a panic keeps the points sent before
  it.  \<open>timer_points\<close> is the part after the test \<^verbatim>\<open>m.metricType != "timer"\<close>.  When the
  threshold index is left to the implementation, what follows depends on it, and the
  function ends here with \<open>ImplementationDependent\<close>.  \<open>numInThreshold\<close> is computed over
  the integers: the 64-bit subtraction wraps around only when the index is beyond every
  slice, where the access panics with or without the wrap.
\<close>

type_synonym point = "string \<times> float32 \<times> string"

definition timer_points :: "flags \<Rightarrow> Metric \<Rightarrow> string \<Rightarrow> point list \<times> outcome" where
  "timer_points cfg m stringTime =
     (let vals = sort_Sort (allValues m)
      in case index vals 0 of Inl p \<Rightarrow> ([], p) | Inr minValue \<Rightarrow>
         (case index vals (int (length vals) - 1) of Inl p \<Rightarrow> ([], p) | Inr maxValue \<Rightarrow>
         (case cumulative_loop vals 0 (Num 0) [minValue] of Inl p \<Rightarrow> ([], p)
          | Inr (sum1, cumulativeValues) \<Rightarrow>
         (let avgValue = f32_div sum1 (f32_of_int (totalHits m));
              sent = [(''stats.timers.'' @ key m @ ''.avg_value'', avgValue, stringTime),
                      (''stats.timers.'' @ key m @ ''.max_value'', maxValue, stringTime),
                      (''stats.timers.'' @ key m @ ''.min_value'', minValue, stringTime)]
          in case thresholdIndex (flag_percentile cfg) (totalHits m) of
               None \<Rightarrow> (sent, ImplementationDependent)
             | Some thresholdIdx \<Rightarrow>
               (let numInThreshold = totalHits m - thresholdIdx
                in case index vals (numInThreshold - 1) of Inl p \<Rightarrow> (sent, p) | Inr maxAtThreshold \<Rightarrow>
                   (case index cumulativeValues (numInThreshold - 1) of Inl p \<Rightarrow> (sent, p) | Inr c \<Rightarrow>
                   (let meanAtPercentile = f32_div c (f32_of_int numInThreshold)
                    in (sent @
                        [(''stats.timers.'' @ key m @ ''.mean_'' @ Itoa (flag_percentile cfg),
                          meanAtPercentile, stringTime),
                         (''stats.timers.'' @ key m @ ''.upper_'' @ Itoa (flag_percentile cfg),
                          maxAtThreshold, stringTime),
                         (''stats.timers.'' @ key m @ ''.sum_'' @ Itoa (flag_percentile cfg),
                          c, stringTime)],
                        Returned))))))))"

definition sendToGraphite :: "flags \<Rightarrow> Metric \<Rightarrow> point list \<times> outcome" where
  "sendToGraphite cfg m =
     (let stringTime = Itoa (flushTime m);
          sent =
            (if metricType m = ''gauge'' then
               [(''stats.gauges.'' @ key m @ ''.avg_value'', lastValue m, stringTime)]
             else if metricType m = ''counter'' then
               (let flushSeconds = Seconds (flag_flushTime cfg);
                    valuePerSec = f32_div (lastValue m) (f32_of_f64 flushSeconds)
                in [(''stats.'' @ key m, valuePerSec, stringTime),
                    (''stats_counts.'' @ key m, lastValue m, stringTime)])
             else [])
            @ [(key m, lastValue m, stringTime)]
      in if metricType m \<noteq> ''timer'' then (sent, Returned)
         else (let (more, how) = timer_points cfg m stringTime in (sent @ more, how)))"

section \<open>The flush cycle\<close>

text \<open>
  The channel \<^verbatim>\<open>graphitePipeline = make(chan Metric, MAXREQS)\<close> and its capacity.
\<close>

definition AvailableMemory :: nat where
  "AvailableMemory = 10 * 2 ^ 20"

definition AverageMemoryPerRequest :: nat where
  "AverageMemoryPerRequest = 10 * 2 ^ 10"

definition MAXREQS :: nat where
  "MAXREQS = AvailableMemory div AverageMemoryPerRequest"

text \<open>
  The program runs one goroutine per client in \<open>handleRequest\<close>, one in \<open>flushMetrics\<close> and
  one in \<open>handleGraphiteQueue\<close>, on one store and one channel.  Its state is the map, the
  content of the channel, and the metrics handed to \<^verbatim>\<open>go sendToGraphite(metric)\<close> so far.
  The steps that touch the map or the channel are:
  \<^item> \<open>ClientSet\<close>: a client session reaches \<^verbatim>\<open>store.Set(metric, metricType, float32(value))\<close>;
    the call holds the mutex, so it is one step;
  \<^item> \<open>FlushSend k now\<close>: the second loop of a tick in \<open>flushMetrics\<close> is at the entry of the
    map with key \<open>k\<close>: it copies the metric, stamps the copy with the time \<open>now\<close> and sends
    it to the channel, which blocks while the channel is full;
  \<^item> \<open>QueueRecv\<close>: one round of the loop of \<open>handleGraphiteQueue\<close>: it receives a metric,
    which blocks while the channel is empty, starts its export, and deletes its key from
    the map unless it is a gauge.
  Neither \<open>flushMetrics\<close> nor \<open>handleGraphiteQueue\<close> takes the mutex, so steps of the three
  kinds interleave freely.  A step that would block is not enabled: \<open>None\<close>.
\<close>

record sys =
  store :: MetricStore
  graphitePipeline :: "Metric list"
  exported :: "Metric list"

datatype event = ClientSet string string float32 | FlushSend string int | QueueRecv

definition init_sys :: sys where
  "init_sys = \<lparr>store = NewMetricStore, graphitePipeline = [], exported = []\<rparr>"

text \<open>
  One round of the sending loop of \<^verbatim>\<open>func flushMetrics(store *MetricStore)\<close>, at the entry
  with key \<open>k\<close>, and one round of the loop of
  \<^verbatim>\<open>func handleGraphiteQueue(store *MetricStore)\<close>.
\<close>

definition flushMetrics_round :: "string \<Rightarrow> int \<Rightarrow> sys \<Rightarrow> sys option" where
  "flushMetrics_round k now s =
     (case store s k of
        None \<Rightarrow> None
      | Some metric \<Rightarrow>
          if length (graphitePipeline s) < MAXREQS
          then Some (s\<lparr>graphitePipeline := graphitePipeline s @ [metric\<lparr>flushTime := now\<rparr>]\<rparr>)
          else None)"

definition handleGraphiteQueue_round :: "sys \<Rightarrow> sys option" where
  "handleGraphiteQueue_round s =
     (case graphitePipeline s of
        [] \<Rightarrow> None
      | metric # rest \<Rightarrow>
          Some (s\<lparr>graphitePipeline := rest,
                 exported := exported s @ [metric],
                 store := (if metricType metric \<noteq> ''gauge'' then (store s)(key metric := None)
                           else store s)\<rparr>))"

fun step :: "event \<Rightarrow> sys \<Rightarrow> sys option" where
  "step (ClientSet k mtype val) s =
     Some (s\<lparr>store := fst (MetricStore_Set (store s) k mtype val)\<rparr>)"
| "step (FlushSend k now) s = flushMetrics_round k now s"
| "step QueueRecv s = handleGraphiteQueue_round s"

fun run :: "event list \<Rightarrow> sys \<Rightarrow> sys option" where
  "run [] s = Some s"
| "run (e # es) s = (case step e s of None \<Rightarrow> None | Some s' \<Rightarrow> run es s')"

text \<open>The events of a flush cycle in which no client writes, and the keys it sends.\<close>

fun is_ClientSet :: "event \<Rightarrow> bool" where
  "is_ClientSet (ClientSet k mtype val) = True"
| "is_ClientSet e = False"

fun sent_keys :: "event list \<Rightarrow> string list" where
  "sent_keys [] = []"
| "sent_keys (FlushSend k now # es) = k # sent_keys es"
| "sent_keys (e # es) = sent_keys es"

section \<open>The statistics of a timer, as the specification words them\<close>

text \<open>
  The cumulative sums of the specification: \<open>cum[0] = samples[0]\<close> and
  \<open>cum[i] = cum[i-1] + samples[i]\<close>, the sum being that of float32.  The theorem on timers
  compares the slice the loop of the source builds with this list.
\<close>

fun running_sums :: "float32 \<Rightarrow> float32 list \<Rightarrow> float32 list" where
  "running_sums a [] = [a]"
| "running_sums a (x # xs) = a # running_sums (f32_add a x) xs"

fun cum_spec :: "float32 list \<Rightarrow> float32 list" where
  "cum_spec [] = []"
| "cum_spec (x # xs) = running_sums x xs"


section \<open>Invariants of the store and the channel\<close>

text \<open>
  The predicates of the invariants proved below: the hit count of a metric is the number
  of its values; every metric of the map is stored under its own name; a metric in the
  channel has the type of the metric the map holds under its name, if the map holds one.
\<close>

definition hits_match :: "Metric \<Rightarrow> bool" where
  "hits_match m = (totalHits m = int (length (allValues m)))"

definition keyed :: "MetricStore \<Rightarrow> bool" where
  "keyed st = (\<forall>k m. st k = Some m \<longrightarrow> key m = k)"

definition pipe_ok :: "sys \<Rightarrow> bool" where
  "pipe_ok s = (\<forall>m \<in> set (graphitePipeline s). \<forall>m'.
     store s (key m) = Some m' \<longrightarrow> metricType m' = metricType m)"

definition sys_hits :: "sys \<Rightarrow> bool" where
  "sys_hits s = ((\<forall>k m. store s k = Some m \<longrightarrow> hits_match m)
     \<and> (\<forall>m \<in> set (graphitePipeline s). hits_match m)
     \<and> (\<forall>m \<in> set (exported s). hits_match m))"

section \<open>Properties of \<open>Set\<close>\<close>

declare flushMetrics_round_def [simp] handleGraphiteQueue_round_def [simp]

lemma f32_add_3_4: "f32_add (Num 3) (Num 4) = Num 7"
  by code_simp

lemma Set_new:
  "s k = None \<Longrightarrow>
   MetricStore_Set s k mtype v =
     (s(k \<mapsto> \<lparr>key = k, metricType = mtype, totalHits = 1, lastValue = v, allValues = [v],
                 flushTime = 0, lastFlushed = 0\<rparr>), False)"
  by (simp add: MetricStore_Set_def zero_Metric_def)

lemma Set_existing:
  "s k = Some m \<Longrightarrow>
   MetricStore_Set s k mtype v =
     (s(k \<mapsto> m\<lparr>totalHits := totalHits m + 1,
                 lastValue := (if mtype = ''counter'' then f32_add (lastValue m) v
                               else if mtype = ''gauge'' \<or> mtype = ''timer'' then v
                               else lastValue m),
                 allValues := allValues m @ [v]\<rparr>), False)"
  by (simp add: MetricStore_Set_def Let_def)

text \<open>
  Claim C1.  A \<open>Set\<close> on a key the store does not hold creates the metric with
  \<open>totalHits = 1\<close>, \<open>lastValue = v\<close>, \<open>allValues = [v]\<close> and the given type.  A \<open>Set\<close> on a
  key it holds adds one to \<open>totalHits\<close>, appends \<open>v\<close> to \<open>allValues\<close>, and sets \<open>lastValue\<close> by
  the type given: a gauge and a timer replace it by \<open>v\<close>, a counter adds \<open>v\<close> to it in
  float32.  No other key changes.  The witness is the counter that is set to 3 and then
  to 4: its last value is 7 and its hit count 2.
\<close>

theorem Set_postcondition:
  "(s k = None \<longrightarrow>
      fst (MetricStore_Set s k mtype v) k =
        Some \<lparr>key = k, metricType = mtype, totalHits = 1, lastValue = v, allValues = [v],
              flushTime = 0, lastFlushed = 0\<rparr>)
   \<and> (\<forall>m. s k = Some m \<longrightarrow>
         fst (MetricStore_Set s k mtype v) k =
           Some (m\<lparr>totalHits := totalHits m + 1,
                    lastValue := (if mtype = ''counter'' then f32_add (lastValue m) v
                                  else if mtype = ''gauge'' \<or> mtype = ''timer'' then v
                                  else lastValue m),
                    allValues := allValues m @ [v]\<rparr>))
   \<and> (\<forall>k'. k' \<noteq> k \<longrightarrow> fst (MetricStore_Set s k mtype v) k' = s k')"
proof (intro conjI allI impI)
  assume "s k = None"
  then show "fst (MetricStore_Set s k mtype v) k =
        Some \<lparr>key = k, metricType = mtype, totalHits = 1, lastValue = v, allValues = [v],
              flushTime = 0, lastFlushed = 0\<rparr>"
    by (simp add: Set_new)
next
  fix m assume "s k = Some m"
  then show "fst (MetricStore_Set s k mtype v) k =
           Some (m\<lparr>totalHits := totalHits m + 1,
                    lastValue := (if mtype = ''counter'' then f32_add (lastValue m) v
                                  else if mtype = ''gauge'' \<or> mtype = ''timer'' then v
                                  else lastValue m),
                    allValues := allValues m @ [v]\<rparr>)"
    by (simp add: Set_existing)
next
  fix k' assume "k' \<noteq> k"
  then show "fst (MetricStore_Set s k mtype v) k' = s k'"
    by (simp add: MetricStore_Set_def Let_def)
qed

theorem Set_postcondition_witness:
  "NewMetricStore ''x'' = None
   \<and> fst (MetricStore_Set NewMetricStore ''x'' ''counter'' (Num 3)) ''x'' =
       Some \<lparr>key = ''x'', metricType = ''counter'', totalHits = 1, lastValue = Num 3,
             allValues = [Num 3], flushTime = 0, lastFlushed = 0\<rparr>
   \<and> fst (MetricStore_Set (fst (MetricStore_Set NewMetricStore ''x'' ''counter'' (Num 3)))
            ''x'' ''counter'' (Num 4)) ''x'' =
       Some \<lparr>key = ''x'', metricType = ''counter'', totalHits = 2, lastValue = Num 7,
             allValues = [Num 3, Num 4], flushTime = 0, lastFlushed = 0\<rparr>"
proof -
  let ?s0 = "NewMetricStore"
  let ?s1 = "fst (MetricStore_Set ?s0 ''x'' ''counter'' (Num 3))"
  let ?m1 = "\<lparr>key = ''x'', metricType = ''counter'', totalHits = 1, lastValue = Num 3,
             allValues = [Num 3], flushTime = 0, lastFlushed = 0\<rparr>"
  have h0: "?s0 ''x'' = None"
    by (simp add: NewMetricStore_def)
  have h1: "?s1 ''x'' = Some ?m1"
    using Set_postcondition [of ?s0 "''x''" "''counter''" "Num 3"] h0 by blast
  have h2: "fst (MetricStore_Set ?s1 ''x'' ''counter'' (Num 4)) ''x'' =
      Some (?m1\<lparr>totalHits := totalHits ?m1 + 1,
                 lastValue := (if ''counter'' = ''counter'' then f32_add (lastValue ?m1) (Num 4)
                               else if ''counter'' = ''gauge'' \<or> ''counter'' = ''timer'' then Num 4
                               else lastValue ?m1),
                 allValues := allValues ?m1 @ [Num 4]\<rparr>)"
    using Set_postcondition [of ?s1 "''x''" "''counter''" "Num 4"] h1 by blast
  show ?thesis
    using h0 h1 h2 by (simp add: f32_add_3_4)
qed

text \<open>
  Claim C10.  A \<open>Set\<close> on a key the store holds, with a type that is not the stored one, is
  applied like any other: the call returns the same \<open>false\<close>, the stored type and name stay,
  the hit count grows by one, the value is appended, and the last value follows the type of
  the call (replaced for a gauge or a timer, added to for a counter).  \<open>Set\<close> has no access
  to a log, and its result carries no error.
\<close>

theorem Set_kind_mismatch:
  assumes "s k = Some m" and "mtype \<noteq> metricType m"
    and "mtype = ''gauge'' \<or> mtype = ''counter'' \<or> mtype = ''timer''"
  shows "MetricStore_Set s k mtype v =
           (s(k \<mapsto> m\<lparr>totalHits := totalHits m + 1,
                       lastValue := (if mtype = ''counter'' then f32_add (lastValue m) v else v),
                       allValues := allValues m @ [v]\<rparr>), False)
         \<and> (\<exists>m'. fst (MetricStore_Set s k mtype v) k = Some m' \<and> metricType m' = metricType m)"
  using assms(1,3) by (auto simp: Set_existing)

theorem Set_kind_mismatch_witness:
  "fst (MetricStore_Set NewMetricStore ''x'' ''gauge'' (Num 3)) ''x'' =
      Some \<lparr>key = ''x'', metricType = ''gauge'', totalHits = 1, lastValue = Num 3,
             allValues = [Num 3], flushTime = 0, lastFlushed = 0\<rparr>
   \<and> ''counter'' \<noteq> ''gauge''
   \<and> fst (MetricStore_Set (fst (MetricStore_Set NewMetricStore ''x'' ''gauge'' (Num 3)))
        ''x'' ''counter'' (Num 4)) ''x'' =
      Some \<lparr>key = ''x'', metricType = ''gauge'', totalHits = 2, lastValue = Num 7,
             allValues = [Num 3, Num 4], flushTime = 0, lastFlushed = 0\<rparr>"
proof -
  let ?m = "\<lparr>key = ''x'', metricType = ''gauge'', totalHits = 1, lastValue = Num 3,
             allValues = [Num 3], flushTime = 0, lastFlushed = 0\<rparr>"
  let ?s1 = "fst (MetricStore_Set NewMetricStore ''x'' ''gauge'' (Num 3))"
  have h1: "?s1 ''x'' = Some ?m"
    by (simp add: Set_new NewMetricStore_def)
  have h2: "''counter'' \<noteq> metricType ?m"
    by simp
  have h3: "''counter'' = ''gauge'' \<or> ''counter'' = ''counter'' \<or> ''counter'' = ''timer''"
    by simp
  have "MetricStore_Set ?s1 ''x'' ''counter'' (Num 4) =
          (?s1(''x'' \<mapsto> ?m\<lparr>totalHits := totalHits ?m + 1,
                 lastValue := (if ''counter'' = ''counter'' then f32_add (lastValue ?m) (Num 4)
                               else Num 4),
                 allValues := allValues ?m @ [Num 4]\<rparr>), False)"
    using Set_kind_mismatch [of ?s1 "''x''" ?m "''counter''" "Num 4"] h1 h2 h3 by blast
  then show ?thesis
    using h1 by (simp add: f32_add_3_4)
qed

section \<open>Properties of the client session\<close>

lemma checkError_no_panic: "checkError err info False = None"
  by (simp add: checkError_def split: option.splits)

lemma find_foo5: "FindSubmatch (read_buf (''foo5|c'' @ [CHR 0x0A])) = None"
  by code_simp

lemma find_foo_5x:
  "FindSubmatch (read_buf (''foo:5|x'' @ [CHR 0x0A])) = Some (''foo'', ''5'', ''x'')"
  by code_simp

lemma find_bar_1c:
  "FindSubmatch (read_buf (''bar:1|c'' @ [CHR 0x0A])) = Some (''bar'', ''1'', ''c'')"
  by code_simp

lemma find_foo_abc:
  "FindSubmatch (read_buf (''foo:abc|c'' @ [CHR 0x0A])) = Some (''foo'', ''abc'', ''c'')"
  by code_simp

lemma trim_c: "Trim (TrimSpace ''c'') [CHR 0x00] = ''c''"
  by code_simp

lemma trim_x: "Trim (TrimSpace ''x'') [CHR 0x00] = ''x''"
  by code_simp

text \<open>
  Claim C4 says that a line without a colon is skipped and the session goes on.  The
  session ends there: the branch for a buffer the expression does not match logs the
  warning and returns.  The client sends the line \<open>foo5|c\<close> and then the line \<open>bar:1|c\<close>; the
  second is never read and the store stays empty, whatever \<open>ParseFloat\<close> does.
\<close>

theorem malformed_line_ends_session:
  "handleRequest pf [''foo5|c'' @ [CHR 0x0A], ''bar:1|c'' @ [CHR 0x0A]] NewMetricStore [] =
     (NewMetricStore,
      [''Error processing client message: '' @ read_buf (''foo5|c'' @ [CHR 0x0A])],
      MessageRejected,
      [''bar:1|c'' @ [CHR 0x0A]])"
  using find_foo5 by simp

text \<open>
  The sibling branch, for a type token that is not known, does what the claim asks for:
  the warning is logged and the next read is served.
\<close>

lemma unknown_type_continues:
  "handleRequest pf [''foo:5|x'' @ [CHR 0x0A], ''bar:1|c'' @ [CHR 0x0A]] NewMetricStore [] =
     (fst (MetricStore_Set NewMetricStore ''bar'' ''counter'' (f32_of_f64 (fst (pf ''1'')))),
      [''Problem handling metric of type: x''], ReadFailed, [])"
  using find_foo_5x find_bar_1c trim_c trim_x
  by (simp add: shortTypeToLong_def checkError_no_panic split: prod.splits)

text \<open>
  Claim C5 says that a line whose value is not a number is skipped, with no \<open>Set\<close>.  The
  error of \<open>ParseFloat\<close> goes to \<open>checkError\<close> with \<open>panicOnError = false\<close>, which does
  nothing, and \<open>Set\<close> is called with the value \<open>ParseFloat\<close> returned beside the error.  For
  the line \<open>foo:abc|c\<close> and every \<open>ParseFloat\<close>, the store after the session is the store
  after that \<open>Set\<close>; with the zero Go returns for a syntax error, the counter \<open>foo\<close> exists
  with one hit and the sample 0.
\<close>

theorem invalid_value_is_stored:
  "handleRequest pf [''foo:abc|c'' @ [CHR 0x0A]] NewMetricStore [] =
     (fst (MetricStore_Set NewMetricStore ''foo'' ''counter'' (f32_of_f64 (fst (pf ''abc'')))),
      [], ReadFailed, [])
   \<and> fst (handleRequest (\<lambda>s. (Num 0, Some ''invalid syntax'')) [''foo:abc|c'' @ [CHR 0x0A]]
          NewMetricStore []) ''foo'' =
       Some \<lparr>key = ''foo'', metricType = ''counter'', totalHits = 1, lastValue = Num 0,
             allValues = [Num 0], flushTime = 0, lastFlushed = 0\<rparr>"
  using find_foo_abc trim_c
  by (simp add: shortTypeToLong_def checkError_no_panic Set_new NewMetricStore_def
      split: prod.splits)

section \<open>Properties of the export\<close>

lemma Itoa_7: "Itoa 7 = ''7''"
  by code_simp

lemma sendToGraphite_gauge:
  "metricType m = ''gauge'' \<Longrightarrow>
   sendToGraphite cfg m =
     ([(''stats.gauges.'' @ key m @ ''.avg_value'', lastValue m, Itoa (flushTime m)),
       (key m, lastValue m, Itoa (flushTime m))], Returned)"
  by (simp add: sendToGraphite_def Let_def)

text \<open>
  Claim C8 says that a gauge is exported as one point.  The call that sends the point
  named by the key alone stands after the branches on the type, so it is made for every
  metric: a gauge is exported as two points.  The counterexample is the gauge \<open>g\<close> with the
  value 5.
\<close>

theorem gauge_export_not_single_point:
  "fst (sendToGraphite \<lparr>flag_percentile = 90, flag_flushTime = 10000000000\<rparr>
       \<lparr>key = ''g'', metricType = ''gauge'', totalHits = 1, lastValue = Num 5,
         allValues = [Num 5], flushTime = 7, lastFlushed = 0\<rparr>)
     = [(''stats.gauges.g.avg_value'', Num 5, ''7''), (''g'', Num 5, ''7'')]
   \<and> fst (sendToGraphite \<lparr>flag_percentile = 90, flag_flushTime = 10000000000\<rparr>
       \<lparr>key = ''g'', metricType = ''gauge'', totalHits = 1, lastValue = Num 5,
         allValues = [Num 5], flushTime = 7, lastFlushed = 0\<rparr>)
     \<noteq> [(''stats.gauges.g.avg_value'', Num 5, ''7'')]"
  by (simp add: sendToGraphite_gauge Itoa_7)

text \<open>
  Claim C8, amended.  For every gauge the export sends exactly two points, in this order:
  \<open>stats.gauges.<name>.avg_value\<close> and \<open><name>\<close>, both with the last value and the time of
  the flush; then it returns.
\<close>

theorem gauge_export_points:
  assumes "metricType m = ''gauge''"
  shows "sendToGraphite cfg m =
     ([(''stats.gauges.'' @ key m @ ''.avg_value'', lastValue m, Itoa (flushTime m)),
       (key m, lastValue m, Itoa (flushTime m))], Returned)"
  using assms by (simp add: sendToGraphite_def Let_def)

theorem gauge_export_points_witness:
  "metricType \<lparr>key = ''g'', metricType = ''gauge'', totalHits = 1, lastValue = Num 5,
      allValues = [Num 5], flushTime = 7, lastFlushed = 0\<rparr> = ''gauge''
   \<and> sendToGraphite \<lparr>flag_percentile = 90, flag_flushTime = 10000000000\<rparr>
       \<lparr>key = ''g'', metricType = ''gauge'', totalHits = 1, lastValue = Num 5,
         allValues = [Num 5], flushTime = 7, lastFlushed = 0\<rparr> =
     ([(''stats.gauges.g.avg_value'', Num 5, ''7''), (''g'', Num 5, ''7'')], Returned)"
  using gauge_export_points [of "\<lparr>key = ''g'', metricType = ''gauge'', totalHits = 1,
      lastValue = Num 5, allValues = [Num 5], flushTime = 7, lastFlushed = 0\<rparr>"
      "\<lparr>flag_percentile = 90, flag_flushTime = 10000000000\<rparr>"]
  by (simp add: Itoa_7)

text \<open>
  Claim C6 says that \<open>numInThreshold\<close> is clamped to the range from 1 to the hit count, so
  that the two accesses at \<open>numInThreshold - 1\<close> are within the slices.  The source has no
  clamp.  A timer with the one sample 1 and the percentile 50 has the threshold index
  \<open>floor (0.5 * 1 + 0.5) = 1\<close>, so \<open>numInThreshold = 0\<close> and \<^verbatim>\<open>m.allValues[-1]\<close> panics after three
  of the six timer points are sent; so does a timer with three samples and the
  percentile 0.
\<close>

theorem percentile_window_out_of_range:
  "sendToGraphite \<lparr>flag_percentile = 50, flag_flushTime = 10000000000\<rparr>
     \<lparr>key = ''t'', metricType = ''timer'', totalHits = 1, lastValue = Num 1,
       allValues = [Num 1], flushTime = 7, lastFlushed = 0\<rparr> =
     ([(''t'', Num 1, ''7''),
       (''stats.timers.t.avg_value'', Num 1, ''7''),
       (''stats.timers.t.max_value'', Num 1, ''7''),
       (''stats.timers.t.min_value'', Num 1, ''7'')], IndexOutOfRange (- 1) 1)
   \<and> sendToGraphite \<lparr>flag_percentile = 0, flag_flushTime = 10000000000\<rparr>
     \<lparr>key = ''t'', metricType = ''timer'', totalHits = 3, lastValue = Num 2,
       allValues = [Num 3, Num 1, Num 2], flushTime = 7, lastFlushed = 0\<rparr> =
     ([(''t'', Num 2, ''7''),
       (''stats.timers.t.avg_value'', Num 2, ''7''),
       (''stats.timers.t.max_value'', Num 3, ''7''),
       (''stats.timers.t.min_value'', Num 1, ''7'')], IndexOutOfRange (- 1) 3)"
  by code_simp

section \<open>Properties of the flush cycle\<close>

text \<open>
  Claim C9 says that the flush reads and resets the store under the exclusive lock, so
  that no \<open>Set\<close> comes between the reading of a metric and the deletion of its key, and no
  update is lost.  \<open>flushMetrics\<close> and \<open>handleGraphiteQueue\<close> read and delete without the
  mutex that \<open>Get\<close> and \<open>Set\<close> hold, and the deletion follows the reading only through the
  channel.  In the run below a client sets the counter \<open>x\<close> to 3, the flush sends its copy,
  the client adds 4, and the queue deletes the key: the export has seen 3 with one hit,
  and the update by 4 is in neither the store nor any export.
\<close>

theorem flush_without_lock_loses_update:
  "map_option (\<lambda>s. (store s ''x'', graphitePipeline s, exported s))
     (run [ClientSet ''x'' ''counter'' (Num 3), FlushSend ''x'' 7,
           ClientSet ''x'' ''counter'' (Num 4), QueueRecv] init_sys) =
   Some (None, [],
     [\<lparr>key = ''x'', metricType = ''counter'', totalHits = 1, lastValue = Num 3,
        allValues = [Num 3], flushTime = 7, lastFlushed = 0\<rparr>])"
  by (simp add: init_sys_def NewMetricStore_def MetricStore_Set_def zero_Metric_def
      MAXREQS_def AvailableMemory_def AverageMemoryPerRequest_def)

lemma Set_hits_match:
  assumes "\<forall>k m. s k = Some m \<longrightarrow> hits_match m"
    and "fst (MetricStore_Set s k mtype v) k' = Some m'"
  shows "hits_match m'"
proof (cases "k' = k")
  case False
  with assms show ?thesis by (simp add: MetricStore_Set_def Let_def)
next
  case True
  show ?thesis
  proof (cases "s k")
    case None
    with assms(2) True show ?thesis by (auto simp: Set_new hits_match_def)
  next
    case (Some m)
    with assms(1) have "hits_match m" by blast
    with assms(2) True Some show ?thesis by (auto simp: Set_existing hits_match_def)
  qed
qed

lemma step_sys_hits:
  assumes "step e s = Some s'" and "sys_hits s"
  shows "sys_hits s'"
proof (cases e)
  case (ClientSet k mtype v)
  with assms show ?thesis
    unfolding sys_hits_def by (auto dest: Set_hits_match [rotated])
next
  case (FlushSend k now)
  with assms show ?thesis
    unfolding sys_hits_def 
    by (auto simp: hits_match_def split: option.splits if_splits)
next
  case QueueRecv
  with assms show ?thesis
    unfolding sys_hits_def
    by (auto split: list.splits if_splits)
qed

lemma run_sys_hits: "run evs s = Some s' \<Longrightarrow> sys_hits s \<Longrightarrow> sys_hits s'"
proof (induction evs arbitrary: s)
  case Nil
  then show ?case by simp
next
  case (Cons e evs)
  then show ?case by (auto split: option.splits dest: step_sys_hits)
qed

lemma init_sys_hits: "sys_hits init_sys"
  by (simp add: sys_hits_def init_sys_def NewMetricStore_def)

text \<open>
  Claim C7.  In every state the program reaches from the empty store, by any interleaving
  of client writes, flush sends and queue receives, every metric of the store has
  \<open>totalHits\<close> equal to the length of \<open>allValues\<close>; so has every copy in the channel and
  every copy handed to the export.  The first \<open>Set\<close> of a key establishes the equation, every
  later \<open>Set\<close> adds one to both sides (lemma \<open>Set_hits_match\<close>), and the flush only copies and
  deletes.  Slices are values here.  A copy in the channel may share its backing array with
  the metric in the map, but the length of a slice is part of the slice value that is
  copied, so the sharing cannot change a length.
\<close>

theorem hitCount_invariant:
  assumes "run evs init_sys = Some s"
  shows "(\<forall>k m. store s k = Some m \<longrightarrow> totalHits m = int (length (allValues m)))
       \<and> (\<forall>m \<in> set (graphitePipeline s) \<union> set (exported s).
            totalHits m = int (length (allValues m)))"
  using run_sys_hits [OF assms init_sys_hits]
  unfolding sys_hits_def hits_match_def by blast


lemma Set_keyed: "keyed s \<Longrightarrow> keyed (fst (MetricStore_Set s k mtype v))"
  unfolding keyed_def
proof (intro allI impI)
  fix k' m'
  assume wf: "\<forall>k m. s k = Some m \<longrightarrow> key m = k"
    and m': "fst (MetricStore_Set s k mtype v) k' = Some m'"
  show "key m' = k'"
  proof (cases "k' = k")
    case False
    with wf m' show ?thesis by (simp add: MetricStore_Set_def Let_def)
  next
    case True
    show ?thesis
    proof (cases "s k")
      case None
      with m' True show ?thesis by (auto simp: Set_new)
    next
      case (Some m)
      with wf have "key m = k" by blast
      with m' True Some show ?thesis by (auto simp: Set_existing)
    qed
  qed
qed

lemma step_keyed: "step e s = Some s' \<Longrightarrow> keyed (store s) \<Longrightarrow> keyed (store s')"
proof (cases e)
  case (ClientSet k mtype v)
  assume "step e s = Some s'" "keyed (store s)"
  with ClientSet show ?thesis by (auto simp: Set_keyed)
next
  case (FlushSend k now)
  assume "step e s = Some s'" "keyed (store s)"
  with FlushSend show ?thesis by (auto split: option.splits if_splits)
next
  case QueueRecv
  assume "step e s = Some s'" "keyed (store s)"
  with QueueRecv show ?thesis by (auto simp: keyed_def split: list.splits if_splits)
qed

lemma run_keyed: "run evs s = Some s' \<Longrightarrow> keyed (store s) \<Longrightarrow> keyed (store s')"
  by (induction evs arbitrary: s) (auto split: option.splits dest: step_keyed)

lemma init_keyed: "keyed (store init_sys)"
  by (simp add: keyed_def init_sys_def NewMetricStore_def)

text \<open>A step that is not a client's leaves every key as it is or deletes it.\<close>

lemma step_store_shrinks:
  "step e s = Some s' \<Longrightarrow> \<not> is_ClientSet e \<Longrightarrow> store s' k = None \<or> store s' k = store s k"
  by (cases e) (auto split: option.splits list.splits if_splits)

lemma step_pipe_ok:
  assumes "step e s = Some s'" and "\<not> is_ClientSet e" and "keyed (store s)" and "pipe_ok s"
  shows "pipe_ok s'"
proof (cases e)
  case (ClientSet k mtype v)
  with assms(2) show ?thesis by simp
next
  case (FlushSend k now)
  with assms(1) obtain m where m: "store s k = Some m"
    and s': "s' = s\<lparr>graphitePipeline := graphitePipeline s @ [m\<lparr>flushTime := now\<rparr>]\<rparr>"
    by (auto split: option.splits if_splits)
  from m assms(3) have "key m = k" by (simp add: keyed_def)
  with m s' assms(4) show ?thesis by (auto simp: pipe_ok_def)
next
  case QueueRecv
  with assms(1) obtain m rest where p: "graphitePipeline s = m # rest"
    and s': "s' = s\<lparr>graphitePipeline := rest, exported := exported s @ [m],
                 store := (if metricType m \<noteq> ''gauge'' then (store s)(key m := None)
                           else store s)\<rparr>"
    by (auto split: list.splits)
  with assms(4) show ?thesis by (auto simp: pipe_ok_def)
qed

lemma step_gauge_stays:
  assumes "step e s = Some s'" and "\<not> is_ClientSet e" and "pipe_ok s"
    and "store s k = Some m" and "metricType m = ''gauge''"
  shows "store s' k = Some m"
proof (cases e)
  case (ClientSet k mtype v)
  with assms(2) show ?thesis by simp
next
  case (FlushSend k' now)
  with assms(1,4) show ?thesis by (auto split: option.splits if_splits)
next
  case QueueRecv
  with assms(1) obtain m0 rest where p: "graphitePipeline s = m0 # rest"
    and s': "s' = s\<lparr>graphitePipeline := rest, exported := exported s @ [m0],
                 store := (if metricType m0 \<noteq> ''gauge'' then (store s)(key m0 := None)
                           else store s)\<rparr>"
    by (auto split: list.splits)
  have "key m0 \<noteq> k" if "metricType m0 \<noteq> ''gauge''"
  proof
    assume "key m0 = k"
    with assms(3,4) p have "metricType m = metricType m0" by (auto simp: pipe_ok_def)
    with assms(5) that show False by simp
  qed
  with s' assms(4) show ?thesis by auto
qed

lemma run_gauge_stays:
  "run evs s = Some s' \<Longrightarrow> \<forall>e \<in> set evs. \<not> is_ClientSet e \<Longrightarrow> keyed (store s) \<Longrightarrow> pipe_ok s \<Longrightarrow>
   store s k = Some m \<Longrightarrow> metricType m = ''gauge'' \<Longrightarrow> store s' k = Some m"
proof (induction evs arbitrary: s)
  case Nil
  then show ?case by simp
next
  case (Cons e evs)
  from Cons.prems(1) obtain s2 where e: "step e s = Some s2" and r: "run evs s2 = Some s'"
    by (auto split: option.splits)
  from Cons.prems(2) have ne: "\<not> is_ClientSet e" and nes: "\<forall>e \<in> set evs. \<not> is_ClientSet e"
    by simp_all
  show ?case
    using Cons.IH [OF r nes step_keyed [OF e Cons.prems(3)]
        step_pipe_ok [OF e ne Cons.prems(3,4)]
        step_gauge_stays [OF e ne Cons.prems(4,5,6)] Cons.prems(6)] .
qed

lemma run_absent_stays:
  "run evs s = Some s' \<Longrightarrow> \<forall>e \<in> set evs. \<not> is_ClientSet e \<Longrightarrow> store s k = None \<Longrightarrow>
   store s' k = None"
proof (induction evs arbitrary: s)
  case Nil
  then show ?case by simp
next
  case (Cons e evs)
  from Cons.prems(1) obtain s2 where e: "step e s = Some s2" and r: "run evs s2 = Some s'"
    by (auto split: option.splits)
  from Cons.prems(2) have ne: "\<not> is_ClientSet e" and nes: "\<forall>e \<in> set evs. \<not> is_ClientSet e"
    by simp_all
  from step_store_shrinks [OF e ne, of k] Cons.prems(3) have "store s2 k = None" by auto
  from Cons.IH [OF r nes this] show ?case .
qed

lemma run_flushed_deleted:
  "run evs s = Some s' \<Longrightarrow> \<forall>e \<in> set evs. \<not> is_ClientSet e \<Longrightarrow> keyed (store s) \<Longrightarrow>
   graphitePipeline s' = [] \<Longrightarrow>
   \<forall>m. store s k = Some m \<longrightarrow> metricType m \<noteq> ''gauge'' \<Longrightarrow>
   store s k = None \<or> k \<in> set (sent_keys evs)
     \<or> (\<exists>m \<in> set (graphitePipeline s). key m = k \<and> metricType m \<noteq> ''gauge'') \<Longrightarrow>
   store s' k = None"
proof (induction evs arbitrary: s)
  case Nil
  then show ?case by auto
next
  case (Cons e evs)
  from Cons.prems(1) obtain s2 where e: "step e s = Some s2" and r: "run evs s2 = Some s'"
    by (auto split: option.splits)
  from Cons.prems(2) have ne: "\<not> is_ClientSet e" and nes: "\<forall>e \<in> set evs. \<not> is_ClientSet e"
    by simp_all
  have k2: "keyed (store s2)" by (rule step_keyed [OF e Cons.prems(3)])
  have sh: "store s2 k = None \<or> store s2 k = store s k" by (rule step_store_shrinks [OF e ne])
  with Cons.prems(5) have t2: "\<forall>m. store s2 k = Some m \<longrightarrow> metricType m \<noteq> ''gauge''" by auto
  have d2: "store s2 k = None \<or> k \<in> set (sent_keys evs)
     \<or> (\<exists>m \<in> set (graphitePipeline s2). key m = k \<and> metricType m \<noteq> ''gauge'')"
  proof (cases e)
    case (ClientSet k' mtype v)
    with ne show ?thesis by simp
  next
    case (FlushSend k' now)
    with e obtain m where m: "store s k' = Some m"
      and s2: "s2 = s\<lparr>graphitePipeline := graphitePipeline s @ [m\<lparr>flushTime := now\<rparr>]\<rparr>"
      by (auto split: option.splits if_splits)
    from m Cons.prems(3) have km: "key m = k'" by (simp add: keyed_def)
    show ?thesis
    proof (cases "k' = k")
      case True
      with m Cons.prems(5) have "metricType m \<noteq> ''gauge''" by simp
      with km True s2 show ?thesis by auto
    next
      case False
      with Cons.prems(6) FlushSend s2 show ?thesis by auto
    qed
  next
    case QueueRecv
    with e obtain m0 rest where p: "graphitePipeline s = m0 # rest"
      and s2: "s2 = s\<lparr>graphitePipeline := rest, exported := exported s @ [m0],
                 store := (if metricType m0 \<noteq> ''gauge'' then (store s)(key m0 := None)
                           else store s)\<rparr>"
      by (auto split: list.splits)
    show ?thesis
    proof (cases "key m0 = k \<and> metricType m0 \<noteq> ''gauge''")
      case True
      with s2 show ?thesis by simp
    next
      case False
      with Cons.prems(6) QueueRecv p s2 show ?thesis by auto
    qed
  qed
  show ?case by (rule Cons.IH [OF r nes k2 Cons.prems(4) t2 d2])
qed

text \<open>
  Claim C3, amended.  Take a state the program reaches with an empty channel, and a flush
  cycle from it: steps of \<open>flushMetrics\<close> and \<open>handleGraphiteQueue\<close> in any order, no client
  write among them, every key of the store sent, the channel empty again at the end.
  Afterwards every key whose metric is not a gauge is absent, and every gauge is present
  and unchanged: same last value, same hit count, same samples.
\<close>

theorem flush_retention:
  assumes "run evs0 init_sys = Some s0" and "graphitePipeline s0 = []"
    and "\<forall>e \<in> set evs. \<not> is_ClientSet e" and "run evs s0 = Some s1"
    and "graphitePipeline s1 = []"
    and "dom (store s0) \<subseteq> set (sent_keys evs)"
  shows "store s1 k =
    (case store s0 k of
       None \<Rightarrow> None
     | Some m \<Rightarrow> if metricType m = ''gauge'' then Some m else None)"
proof -
  have k0: "keyed (store s0)" by (rule run_keyed [OF assms(1) init_keyed])
  have p0: "pipe_ok s0" using assms(2) by (simp add: pipe_ok_def)
  show ?thesis
  proof (cases "store s0 k")
    case None
    with run_absent_stays [OF assms(4,3)] show ?thesis by simp
  next
    case (Some m)
    show ?thesis
    proof (cases "metricType m = ''gauge''")
      case True
      with run_gauge_stays [OF assms(4,3) k0 p0 Some] Some show ?thesis by simp
    next
      case False
      from Some assms(6) have "k \<in> set (sent_keys evs)" by auto
      with run_flushed_deleted [OF assms(4,3) k0 assms(5), of k] Some False
      show ?thesis by simp
    qed
  qed
qed


lemmas run_eval = init_sys_def NewMetricStore_def MetricStore_Set_def zero_Metric_def
  MAXREQS_def AvailableMemory_def AverageMemoryPerRequest_def

theorem hitCount_invariant_witness:
  "map_option (\<lambda>s. (store s ''x'', graphitePipeline s))
     (run [ClientSet ''x'' ''counter'' (Num 3), FlushSend ''x'' 7,
           ClientSet ''x'' ''counter'' (Num 4)] init_sys) =
     Some (Some \<lparr>key = ''x'', metricType = ''counter'', totalHits = 2, lastValue = Num 7,
                  allValues = [Num 3, Num 4], flushTime = 0, lastFlushed = 0\<rparr>,
           [\<lparr>key = ''x'', metricType = ''counter'', totalHits = 1, lastValue = Num 3,
              allValues = [Num 3], flushTime = 7, lastFlushed = 0\<rparr>])
   \<and> totalHits \<lparr>key = ''x'', metricType = ''counter'', totalHits = 2, lastValue = Num 7,
                  allValues = [Num 3, Num 4], flushTime = 0, lastFlushed = 0\<rparr> =
       int (length (allValues \<lparr>key = ''x'', metricType = ''counter'', totalHits = 2,
                  lastValue = Num 7, allValues = [Num 3, Num 4], flushTime = 0,
                  lastFlushed = 0\<rparr>))"
proof -
  let ?E = "[ClientSet ''x'' ''counter'' (Num 3), FlushSend ''x'' 7,
           ClientSet ''x'' ''counter'' (Num 4)]"
  let ?M = "\<lparr>key = ''x'', metricType = ''counter'', totalHits = 2, lastValue = Num 7,
                  allValues = [Num 3, Num 4], flushTime = 0, lastFlushed = 0\<rparr>"
  have "\<exists>s. run ?E init_sys = Some s"
    by (simp add: run_eval)
  then obtain s where r: "run ?E init_sys = Some s" ..
  then have st: "store s ''x'' = Some ?M"
    by (auto simp: run_eval f32_add_3_4)
  from hitCount_invariant [OF r] st have "totalHits ?M = int (length (allValues ?M))"
    by blast
  moreover from r have "map_option (\<lambda>s. (store s ''x'', graphitePipeline s)) (run ?E init_sys) =
     Some (Some ?M,
           [\<lparr>key = ''x'', metricType = ''counter'', totalHits = 1, lastValue = Num 3,
              allValues = [Num 3], flushTime = 7, lastFlushed = 0\<rparr>])"
    by (auto simp: run_eval f32_add_3_4)
  ultimately show ?thesis by blast
qed

text \<open>
  Claim C3 says that after a flush a gauge is still there with its last value, its hit
  count reset to 0 and its samples cleared.  The source has no reset: \<open>handleGraphiteQueue\<close>
  deletes what is not a gauge and leaves a gauge untouched.  After the gauge \<open>g\<close> is set to
  5 and flushed, its hit count is still 1 and its samples are still \<open>[5]\<close>.
\<close>

theorem gauge_not_reset_by_flush:
  "map_option (\<lambda>s. (store s ''g'', graphitePipeline s))
     (run [ClientSet ''g'' ''gauge'' (Num 5), FlushSend ''g'' 7, QueueRecv] init_sys) =
   Some (Some \<lparr>key = ''g'', metricType = ''gauge'', totalHits = 1, lastValue = Num 5,
                allValues = [Num 5], flushTime = 0, lastFlushed = 0\<rparr>, [])"
  by (simp add: init_sys_def NewMetricStore_def MetricStore_Set_def zero_Metric_def
      MAXREQS_def AvailableMemory_def AverageMemoryPerRequest_def)

theorem flush_retention_witness:
  "\<exists>s0 s1.
     run [ClientSet ''g'' ''gauge'' (Num 5), ClientSet ''c'' ''counter'' (Num 1)] init_sys = Some s0
     \<and> graphitePipeline s0 = []
     \<and> list_all (\<lambda>e. \<not> is_ClientSet e) [FlushSend ''g'' 7, FlushSend ''c'' 7, QueueRecv, QueueRecv]
     \<and> run [FlushSend ''g'' 7, FlushSend ''c'' 7, QueueRecv, QueueRecv] s0 = Some s1
     \<and> graphitePipeline s1 = []
     \<and> dom (store s0) \<subseteq> set (sent_keys [FlushSend ''g'' 7, FlushSend ''c'' 7, QueueRecv, QueueRecv])
     \<and> store s0 ''g'' = Some \<lparr>key = ''g'', metricType = ''gauge'', totalHits = 1, lastValue = Num 5,
                allValues = [Num 5], flushTime = 0, lastFlushed = 0\<rparr>
     \<and> store s0 ''c'' = Some \<lparr>key = ''c'', metricType = ''counter'', totalHits = 1, lastValue = Num 1,
                allValues = [Num 1], flushTime = 0, lastFlushed = 0\<rparr>
     \<and> store s1 ''g'' = Some \<lparr>key = ''g'', metricType = ''gauge'', totalHits = 1, lastValue = Num 5,
                allValues = [Num 5], flushTime = 0, lastFlushed = 0\<rparr>
     \<and> store s1 ''c'' = None"
proof -
  let ?A = "[ClientSet ''g'' ''gauge'' (Num 5), ClientSet ''c'' ''counter'' (Num 1)]"
  let ?B = "[FlushSend ''g'' 7, FlushSend ''c'' 7, QueueRecv, QueueRecv]"
  let ?G = "\<lparr>key = ''g'', metricType = ''gauge'', totalHits = 1, lastValue = Num 5,
                allValues = [Num 5], flushTime = 0, lastFlushed = 0\<rparr>"
  let ?C = "\<lparr>key = ''c'', metricType = ''counter'', totalHits = 1, lastValue = Num 1,
                allValues = [Num 1], flushTime = 0, lastFlushed = 0\<rparr>"
  have "\<exists>s0. run ?A init_sys = Some s0"
    by (simp add: run_eval)
  then obtain s0 where r0: "run ?A init_sys = Some s0" ..
  then have s0: "s0 = \<lparr>store = [''g'' \<mapsto> ?G, ''c'' \<mapsto> ?C], graphitePipeline = [], exported = []\<rparr>"
    by (simp add: run_eval)
  have p0: "graphitePipeline s0 = []" and g0: "store s0 ''g'' = Some ?G"
    and c0: "store s0 ''c'' = Some ?C" and d0: "dom (store s0) \<subseteq> set (sent_keys ?B)"
    by (simp_all add: s0)
  have "\<exists>s1. run ?B s0 = Some s1"
    by (simp add: s0 run_eval)
  then obtain s1 where r1: "run ?B s0 = Some s1" ..
  then have p1: "graphitePipeline s1 = []"
    by (auto simp: s0 run_eval)
  have nc: "\<forall>e \<in> set ?B. \<not> is_ClientSet e"
    by simp
  have "store s1 ''g'' = Some ?G"
    using flush_retention [OF r0 p0 nc r1 p1 d0, of "''g''"] g0 by simp
  moreover have "store s1 ''c'' = None"
    using flush_retention [OF r0 p0 nc r1 p1 d0, of "''c''"] c0 by simp
  ultimately show ?thesis
    using r0 p0 r1 p1 d0 g0 c0 by auto
qed


section \<open>Properties of the timer statistics\<close>



lemma cumulative_loop_running:
  "cumv \<noteq> [] \<Longrightarrow> idx = int (length cumv) \<Longrightarrow>
   cumulative_loop vs idx s cumv =
     Inr (foldl f32_add s vs, butlast cumv @ running_sums (last cumv) vs)"
proof (induction vs arbitrary: idx s cumv)
  case Nil
  then show ?case by simp
next
  case (Cons v vs)
  from Cons.prems have i: "index cumv (idx - 1) = Inr (last cumv)"
    by (cases cumv rule: rev_cases) (auto simp: index_def)
  have "cumulative_loop vs (idx + 1) (f32_add s v) (cumv @ [f32_add (last cumv) v]) =
      Inr (foldl f32_add (f32_add s v) vs,
           butlast (cumv @ [f32_add (last cumv) v])
             @ running_sums (last (cumv @ [f32_add (last cumv) v])) vs)"
    by (rule Cons.IH) (use Cons.prems in auto)
  with Cons.prems i show ?case by simp
qed

lemma cumulative_loop_spec:
  "vals \<noteq> [] \<Longrightarrow>
   cumulative_loop vals 0 (Num 0) [vals ! 0] = Inr (foldl f32_add (Num 0) vals, cum_spec vals)"
proof (cases vals)
  case Nil
  assume "vals \<noteq> []"
  with Nil show ?thesis by simp
next
  case (Cons v vs)
  have "cumulative_loop vs (0 + 1) (f32_add (Num 0) v) [v] =
      Inr (foldl f32_add (f32_add (Num 0) v) vs, butlast [v] @ running_sums (last [v]) vs)"
    by (rule cumulative_loop_running) simp_all
  with Cons show ?thesis by simp
qed



lemma mset_insert_less: "mset (insert_less x ys) = add_mset x (mset ys)"
  by (induction ys) auto

lemma mset_sort_Sort: "mset (sort_Sort xs) = mset xs"
  by (induction xs) (auto simp: sort_Sort_def mset_insert_less)


lemma length_sort_Sort: "length (sort_Sort xs) = length xs"
  by (metis mset_sort_Sort size_mset)











text \<open>
  The other case: when the threshold index is negative or not below the hit count, the
  access \<^verbatim>\<open>m.allValues[numInThreshold-1]\<close> is out of range and the export panics after the
  first four points.
\<close>

lemma timer_export_panics:
  assumes "metricType m = ''timer''" and "allValues m \<noteq> []"
    and "totalHits m = int (length (allValues m))"
    and "thresholdIndex (flag_percentile cfg) (totalHits m) = Some thresholdIdx"
    and "thresholdIdx < 0 \<or> totalHits m \<le> thresholdIdx"
  shows "sendToGraphite cfg m =
    ([(key m, lastValue m, Itoa (flushTime m)),
      (''stats.timers.'' @ key m @ ''.avg_value'',
       f32_div (foldl f32_add (Num 0) (sort_Sort (allValues m))) (f32_of_int (totalHits m)),
       Itoa (flushTime m)),
      (''stats.timers.'' @ key m @ ''.max_value'', last (sort_Sort (allValues m)),
       Itoa (flushTime m)),
      (''stats.timers.'' @ key m @ ''.min_value'', hd (sort_Sort (allValues m)),
       Itoa (flushTime m))],
     IndexOutOfRange (totalHits m - thresholdIdx - 1) (length (allValues m)))"
proof -
  let ?v = "sort_Sort (allValues m)"
  have len: "length ?v = length (allValues m)" by (rule length_sort_Sort)
  with assms(2) have ne: "?v \<noteq> []" by auto
  have i0: "index ?v 0 = Inr (hd ?v)"
    using ne by (simp add: index_def hd_conv_nth)
  have il: "index ?v (int (length ?v) - 1) = Inr (last ?v)"
    using ne by (cases ?v rule: rev_cases) (auto simp: index_def)
  have loop: "cumulative_loop ?v 0 (Num 0) [hd ?v] = Inr (foldl f32_add (Num 0) ?v, cum_spec ?v)"
    using cumulative_loop_spec [OF ne] ne by (simp add: hd_conv_nth)
  have ik: "index ?v (totalHits m - thresholdIdx - 1) =
      Inl (IndexOutOfRange (totalHits m - thresholdIdx - 1) (length (allValues m)))"
    using assms(3,5) len by (auto simp: index_def)
  show ?thesis
    using assms(1)
    by (simp add: sendToGraphite_def timer_points_def Let_def i0 il loop assms(4) ik)
qed



text \<open>
  The threshold index is a float64 computation, and the theorem above words it so.  For
  the percentile 71 and 50 hits the formula gives 15 over the rationals; \<open>29 / 100\<close> and its
  product with 50 are rounded, and the source computes 14.
\<close>

lemma thresholdIndex_float64: "thresholdIndex 71 50 = Some 14"
  by code_simp


end
